theory Spec2Isabelle
  imports Main
begin

section \<open>Strings and dictionaries of the host language\<close>

text \<open>
  The program is Python 2: string literals are byte strings, modelled as \<^typ>\<open>string\<close>.
  \<open>str.upper\<close> maps the bytes \<open>a\<close>..\<open>z\<close> (97..122) to \<open>A\<close>..\<open>Z\<close> and leaves every other
  byte alone; \<open>str.strip\<close> removes the whitespace bytes 9..13 and 32 from both ends.
\<close>

definition upper_char :: "char \<Rightarrow> char" where
  "upper_char c =
     (let n = (of_char c :: nat) in if 97 \<le> n \<and> n \<le> 122 then char_of (n - 32) else c)"

definition upper :: "string \<Rightarrow> string" where
  "upper s = map upper_char s"

definition isspace :: "char \<Rightarrow> bool" where
  "isspace c = (let n = (of_char c :: nat) in (9 \<le> n \<and> n \<le> 13) \<or> n = 32)"

definition lstrip :: "string \<Rightarrow> string" where
  "lstrip s = dropWhile isspace s"

definition rstrip :: "string \<Rightarrow> string" where
  "rstrip s = rev (dropWhile isspace (rev s))"

definition strip :: "string \<Rightarrow> string" where
  "strip s = rstrip (lstrip s)"

text \<open>
  A dictionary is a map. A dictionary display or comprehension stores its items one after
  the other, a later item replacing an earlier one with the same key; \<open>d.iteritems()\<close> of a
  literal dictionary is taken in the order the literal is written (the dictionaries inverted
  below have pairwise distinct values, so the order does not show in the result).
\<close>

definition dict_of :: "('k \<times> 'v) list \<Rightarrow> ('k \<rightharpoonup> 'v)" where
  "dict_of kvs = foldl (\<lambda>m (k, v). m(k \<mapsto> v)) Map.empty kvs"

definition enumerate_from0 :: "'a list \<Rightarrow> (int \<times> 'a) list" where
  "enumerate_from0 xs = zip (map int [0 ..< length xs]) xs"

section \<open>Operator precedence table (utils.py)\<close>

definition OPERATOR_PRECEDENCES_tiers :: "string list list" where
  "OPERATOR_PRECEDENCES_tiers =
     [ [''*'', ''/'', ''%'', ''DIV'', ''MOD''],
       [''-'', ''+''],
       [''<<'', ''>>''],
       [''='', ''!='', ''>'', ''<'', ''>='', ''<='', ''IN'', ''IS'', ''IS NOT'', ''NOT IN''],
       [''BETWEEN'', ''CASE''],
       [''AND'', ''&&''],
       [''OR'', ''||''] ]"

text \<open>
  \<open>{item: idx for idx, items in enumerate(reversed(_OPERATOR_PRECEDENCES)) for item in items}\<close>
\<close>

definition OPERATOR_PRECEDENCES_items :: "(string \<times> int) list" where
  "OPERATOR_PRECEDENCES_items =
     concat (map (\<lambda>(idx, items). map (\<lambda>item. (item, idx)) items)
                 (enumerate_from0 (rev OPERATOR_PRECEDENCES_tiers)))"

definition OPERATOR_PRECEDENCES :: "string \<rightharpoonup> int" where
  "OPERATOR_PRECEDENCES = dict_of OPERATOR_PRECEDENCES_items"

definition get_operator_precedence :: "string \<Rightarrow> int" where
  "get_operator_precedence operator =
     (case OPERATOR_PRECEDENCES operator of Some p \<Rightarrow> p | None \<Rightarrow> - 1)"

definition compare_operator_precedence :: "string \<Rightarrow> string \<Rightarrow> int" where
  "compare_operator_precedence a b =
     (let ap = get_operator_precedence (upper a);
          bp = get_operator_precedence (upper b)
      in if ap = bp then 0 else if ap > bp then 1 else - 1)"

section \<open>Operator negation tables (utils.py)\<close>

definition UNARY_NEG_OPERATOR_base :: "(string \<times> string) list" where
  "UNARY_NEG_OPERATOR_base = [(''-'', ''+'')]"

text \<open>\<open>dict({v: k for k, v in D.iteritems()}, **D)\<close>: the inverse, then updated with \<open>D\<close>.\<close>

definition UNARY_NEG_OPERATOR :: "string \<rightharpoonup> string" where
  "UNARY_NEG_OPERATOR =
     dict_of (map (\<lambda>(k, v). (v, k)) UNARY_NEG_OPERATOR_base) ++ dict_of UNARY_NEG_OPERATOR_base"

definition BINARY_NEG_OPERATOR_base :: "(string \<times> string) list" where
  "BINARY_NEG_OPERATOR_base =
     [(''IN'', ''NOT IN''), (''IS'', ''IS NOT''), (''='', ''!=''), (''>'', ''<=''), (''<'', ''>='')]"

definition BINARY_NEG_OPERATOR :: "string \<rightharpoonup> string" where
  "BINARY_NEG_OPERATOR =
     dict_of (map (\<lambda>(k, v). (v, k)) BINARY_NEG_OPERATOR_base) ++ dict_of BINARY_NEG_OPERATOR_base"

definition get_neg_operator :: "string \<Rightarrow> bool \<Rightarrow> string option" where
  "get_neg_operator op is_unary =
     (let op = upper (strip op)
      in if is_unary then UNARY_NEG_OPERATOR op else BINARY_NEG_OPERATOR op)"

section \<open>Rendering helpers (utils.py)\<close>

text \<open>
  A value handed to the rendering helpers either has a \<open>get_sql_and_params\<close> attribute or
  has none. The classes that define the method are not part of utils.py, so the method is a
  parameter \<open>get_sql_and_params\<close> of the model, as is the builtin \<open>str\<close>, the default of
  \<open>coerce\<close>. Both, and \<open>coerce\<close> itself, are taken as functions that return.
\<close>

datatype ('e, 'a) operand = Expression 'e | Literal 'a

definition sql_and_params ::
  "('e \<Rightarrow> string \<times> 'p list) \<Rightarrow> ('e, 'a) operand \<Rightarrow> ('a \<Rightarrow> string) \<Rightarrow> string \<times> 'p list" where
  "sql_and_params get_sql_and_params v coerce =
     (case v of
        Expression e \<Rightarrow> get_sql_and_params e
      | Literal a \<Rightarrow> (coerce a, []))"

text \<open>
  The loop of \<open>get_sql_pieces_and_params\<close>, on the pair of lists it appends to. The call in
  the loop body is \<open>sql_and_params(exp)\<close>: its second argument is the default, \<open>str\<close>.
\<close>

fun get_sql_pieces_and_params_loop ::
  "('e \<Rightarrow> string \<times> 'p list) \<Rightarrow> ('a \<Rightarrow> string) \<Rightarrow> ('e, 'a) operand list
     \<Rightarrow> string list \<times> 'p list \<Rightarrow> string list \<times> 'p list" where
  "get_sql_pieces_and_params_loop get_sql_and_params str [] (pieces, params) = (pieces, params)"
| "get_sql_pieces_and_params_loop get_sql_and_params str (exp # exps) (pieces, params) =
     (let (piece, params') = sql_and_params get_sql_and_params exp str;
          pieces = pieces @ [piece];
          params = (if params' \<noteq> [] then params @ params' else params)
      in get_sql_pieces_and_params_loop get_sql_and_params str exps (pieces, params))"

definition get_sql_pieces_and_params ::
  "('e \<Rightarrow> string \<times> 'p list) \<Rightarrow> ('a \<Rightarrow> string) \<Rightarrow> ('e, 'a) operand list
     \<Rightarrow> ('a \<Rightarrow> string) \<Rightarrow> string list \<times> 'p list" where
  "get_sql_pieces_and_params get_sql_and_params str exps coerce =
     get_sql_pieces_and_params_loop get_sql_and_params str exps ([], [])"

section \<open>Operation mixins (mixins/operations.py)\<close>

text \<open>
  Modelled from the spec: the classes \<open>UnaryExpression\<close> and \<open>BinaryExpression\<close> that the
  mixins instantiate through \<open>self\<close> are not in the source. The spec gives a unary node as
  its operand and operator symbol and a binary node as its left operand, right operand and
  operator symbol, stored as passed; construction validates nothing and does not fail.
\<close>

datatype ('x, 'v) expression =
    UnaryExpression 'x string
  | BinaryExpression 'x 'v string

text \<open>The argument \<open>other\<close> of a method is \<open>None\<close> or some other value.\<close>

datatype 'a pyvalue = PyNone | PyValue 'a

definition UnaryOperationMixin_desc :: "'x \<Rightarrow> ('x, 'v) expression" where
  "UnaryOperationMixin_desc self = UnaryExpression self ''DESC''"

definition UnaryOperationMixin_asc :: "'x \<Rightarrow> ('x, 'v) expression" where
  "UnaryOperationMixin_asc self = UnaryExpression self ''ASC''"

definition BinaryOperationMixin_add :: "'x \<Rightarrow> 'a pyvalue \<Rightarrow> ('x, 'a pyvalue) expression" where
  "BinaryOperationMixin_add self other = BinaryExpression self other ''+''"

definition BinaryOperationMixin_radd :: "'x \<Rightarrow> 'a pyvalue \<Rightarrow> ('x, 'a pyvalue) expression" where
  "BinaryOperationMixin_radd = BinaryOperationMixin_add"

definition BinaryOperationMixin_sub :: "'x \<Rightarrow> 'a pyvalue \<Rightarrow> ('x, 'a pyvalue) expression" where
  "BinaryOperationMixin_sub self other = BinaryExpression self other ''-''"

definition BinaryOperationMixin_rsub :: "'x \<Rightarrow> 'a pyvalue \<Rightarrow> ('x, 'a pyvalue) expression" where
  "BinaryOperationMixin_rsub = BinaryOperationMixin_sub"

definition BinaryOperationMixin_mul :: "'x \<Rightarrow> 'a pyvalue \<Rightarrow> ('x, 'a pyvalue) expression" where
  "BinaryOperationMixin_mul self other = BinaryExpression self other ''*''"

definition BinaryOperationMixin_div :: "'x \<Rightarrow> 'a pyvalue \<Rightarrow> ('x, 'a pyvalue) expression" where
  "BinaryOperationMixin_div self other = BinaryExpression self other ''/''"

definition BinaryOperationMixin_mod :: "'x \<Rightarrow> 'a pyvalue \<Rightarrow> ('x, 'a pyvalue) expression" where
  "BinaryOperationMixin_mod self other = BinaryExpression self other ''%''"

definition BinaryOperationMixin_eq :: "'x \<Rightarrow> 'a pyvalue \<Rightarrow> ('x, 'a pyvalue) expression" where
  "BinaryOperationMixin_eq self other =
     (let operator = ''='';
          operator = (if other = PyNone then ''IS'' else operator)
      in BinaryExpression self other operator)"

definition BinaryOperationMixin_ne :: "'x \<Rightarrow> 'a pyvalue \<Rightarrow> ('x, 'a pyvalue) expression" where
  "BinaryOperationMixin_ne self other =
     (let operator = ''!='';
          operator = (if other = PyNone then ''IS NOT'' else operator)
      in BinaryExpression self other operator)"

definition BinaryOperationMixin_gt :: "'x \<Rightarrow> 'a pyvalue \<Rightarrow> ('x, 'a pyvalue) expression" where
  "BinaryOperationMixin_gt self other = BinaryExpression self other ''>''"

definition BinaryOperationMixin_ge :: "'x \<Rightarrow> 'a pyvalue \<Rightarrow> ('x, 'a pyvalue) expression" where
  "BinaryOperationMixin_ge self other = BinaryExpression self other ''>=''"

definition BinaryOperationMixin_lt :: "'x \<Rightarrow> 'a pyvalue \<Rightarrow> ('x, 'a pyvalue) expression" where
  "BinaryOperationMixin_lt self other = BinaryExpression self other ''<''"

definition BinaryOperationMixin_le :: "'x \<Rightarrow> 'a pyvalue \<Rightarrow> ('x, 'a pyvalue) expression" where
  "BinaryOperationMixin_le self other = BinaryExpression self other ''<=''"

definition BinaryOperationMixin_in :: "'x \<Rightarrow> 'a pyvalue \<Rightarrow> ('x, 'a pyvalue) expression" where
  "BinaryOperationMixin_in self other = BinaryExpression self other ''IN''"

definition BinaryOperationMixin_lshift :: "'x \<Rightarrow> 'a pyvalue \<Rightarrow> ('x, 'a pyvalue) expression" where
  "BinaryOperationMixin_lshift = BinaryOperationMixin_in"

definition BinaryOperationMixin_not_in :: "'x \<Rightarrow> 'a pyvalue \<Rightarrow> ('x, 'a pyvalue) expression" where
  "BinaryOperationMixin_not_in self other = BinaryExpression self other ''NOT IN''"

definition BinaryOperationMixin_like :: "'x \<Rightarrow> 'a pyvalue \<Rightarrow> ('x, 'a pyvalue) expression" where
  "BinaryOperationMixin_like self other = BinaryExpression self other ''LIKE''"

definition BinaryOperationMixin_ilike :: "'x \<Rightarrow> 'a pyvalue \<Rightarrow> ('x, 'a pyvalue) expression" where
  "BinaryOperationMixin_ilike self other = BinaryExpression self other ''ILIKE''"

definition BinaryOperationMixin_regexp :: "'x \<Rightarrow> 'a pyvalue \<Rightarrow> ('x, 'a pyvalue) expression" where
  "BinaryOperationMixin_regexp self other = BinaryExpression self other ''REGEXP''"

definition BinaryOperationMixin_between :: "'x \<Rightarrow> 'a pyvalue \<Rightarrow> ('x, 'a pyvalue) expression" where
  "BinaryOperationMixin_between self other = BinaryExpression self other ''BETWEEN''"

definition BinaryOperationMixin_concat :: "'x \<Rightarrow> 'a pyvalue \<Rightarrow> ('x, 'a pyvalue) expression" where
  "BinaryOperationMixin_concat self other = BinaryExpression self other ''||''"

definition BinaryOperationMixin_is :: "'x \<Rightarrow> 'a pyvalue \<Rightarrow> ('x, 'a pyvalue) expression" where
  "BinaryOperationMixin_is self other = BinaryExpression self other ''IS''"

definition BinaryOperationMixin_is_not :: "'x \<Rightarrow> 'a pyvalue \<Rightarrow> ('x, 'a pyvalue) expression" where
  "BinaryOperationMixin_is_not self other = BinaryExpression self other ''IS NOT''"

section \<open>Facts about the tables\<close>

lemma OPERATOR_PRECEDENCES_items_eq:
  "OPERATOR_PRECEDENCES_items =
     [(''OR'', 0), (''||'', 0), (''AND'', 1), (''&&'', 1), (''BETWEEN'', 2), (''CASE'', 2),
      (''='', 3), (''!='', 3), (''>'', 3), (''<'', 3), (''>='', 3), (''<='', 3), (''IN'', 3),
      (''IS'', 3), (''IS NOT'', 3), (''NOT IN'', 3), (''<<'', 4), (''>>'', 4),
      (''-'', 5), (''+'', 5), (''*'', 6), (''/'', 6), (''%'', 6), (''DIV'', 6), (''MOD'', 6)]"
  by (simp add: OPERATOR_PRECEDENCES_items_def OPERATOR_PRECEDENCES_tiers_def
      enumerate_from0_def upt_rec)

lemma OPERATOR_PRECEDENCES_apply:
  "OPERATOR_PRECEDENCES op =
     (if op \<in> {''OR'', ''||''} then Some 0
      else if op \<in> {''AND'', ''&&''} then Some 1
      else if op \<in> {''BETWEEN'', ''CASE''} then Some 2
      else if op \<in> {''='', ''!='', ''>'', ''<'', ''>='', ''<='', ''IN'', ''IS'', ''IS NOT'',
                      ''NOT IN''} then Some 3
      else if op \<in> {''<<'', ''>>''} then Some 4
      else if op \<in> {''-'', ''+''} then Some 5
      else if op \<in> {''*'', ''/'', ''%'', ''DIV'', ''MOD''} then Some 6
      else None)"
  unfolding OPERATOR_PRECEDENCES_def OPERATOR_PRECEDENCES_items_eq dict_of_def
  by simp

lemma OPERATOR_PRECEDENCES_dom:
  "dom OPERATOR_PRECEDENCES =
     {''OR'', ''||'', ''AND'', ''&&'', ''BETWEEN'', ''CASE'',
      ''='', ''!='', ''>'', ''<'', ''>='', ''<='', ''IN'', ''IS'', ''IS NOT'', ''NOT IN'',
      ''<<'', ''>>'', ''-'', ''+'', ''*'', ''/'', ''%'', ''DIV'', ''MOD''}"
  unfolding OPERATOR_PRECEDENCES_def OPERATOR_PRECEDENCES_items_eq dict_of_def
  by (simp add: insert_commute)

lemma precedence_keys_upper:
  "list_all (\<lambda>k. upper k = k)
     [''OR'', ''||'', ''AND'', ''&&'', ''BETWEEN'', ''CASE'',
      ''='', ''!='', ''>'', ''<'', ''>='', ''<='', ''IN'', ''IS'', ''IS NOT'', ''NOT IN'',
      ''<<'', ''>>'', ''-'', ''+'', ''*'', ''/'', ''%'', ''DIV'', ''MOD'']"
  by (simp add: upper_def upper_char_def)

lemma known_upper_fixed:
  assumes "op \<in> dom OPERATOR_PRECEDENCES"
  shows "upper op = op"
proof -
  have m: "op \<in> set [''OR'', ''||'', ''AND'', ''&&'', ''BETWEEN'', ''CASE'',
      ''='', ''!='', ''>'', ''<'', ''>='', ''<='', ''IN'', ''IS'', ''IS NOT'', ''NOT IN'',
      ''<<'', ''>>'', ''-'', ''+'', ''*'', ''/'', ''%'', ''DIV'', ''MOD'']"
    using assms by (simp add: OPERATOR_PRECEDENCES_dom)
  show ?thesis
    by (rule bspec [OF precedence_keys_upper [unfolded list_all_iff] m])
qed

lemma known_tier_nonneg: "OPERATOR_PRECEDENCES op = Some p \<Longrightarrow> 0 \<le> p"
  by (simp add: OPERATOR_PRECEDENCES_apply split: if_splits)

lemma known_precedence_nonneg:
  "op \<in> dom OPERATOR_PRECEDENCES \<Longrightarrow> 0 \<le> get_operator_precedence op"
  using known_tier_nonneg by (auto simp: get_operator_precedence_def)

lemma unknown_precedence:
  "op \<notin> dom OPERATOR_PRECEDENCES \<Longrightarrow> get_operator_precedence op = - 1"
  by (auto simp: get_operator_precedence_def dom_def)

lemma UNARY_NEG_OPERATOR_apply:
  "UNARY_NEG_OPERATOR n =
     (if n = ''-'' then Some ''+'' else if n = ''+'' then Some ''-'' else None)"
  by (simp add: UNARY_NEG_OPERATOR_def UNARY_NEG_OPERATOR_base_def dict_of_def map_add_def)

lemma BINARY_NEG_OPERATOR_apply:
  "BINARY_NEG_OPERATOR n =
     (if n = ''IN'' then Some ''NOT IN''
      else if n = ''IS'' then Some ''IS NOT''
      else if n = ''='' then Some ''!=''
      else if n = ''>'' then Some ''<=''
      else if n = ''<'' then Some ''>=''
      else if n = ''NOT IN'' then Some ''IN''
      else if n = ''IS NOT'' then Some ''IS''
      else if n = ''!='' then Some ''=''
      else if n = ''<='' then Some ''>''
      else if n = ''>='' then Some ''<''
      else None)"
  by (simp add: BINARY_NEG_OPERATOR_def BINARY_NEG_OPERATOR_base_def dict_of_def map_add_def)

lemma UNARY_NEG_OPERATOR_dom: "dom UNARY_NEG_OPERATOR = {''-'', ''+''}"
  by (auto simp: dom_def UNARY_NEG_OPERATOR_apply)

lemma BINARY_NEG_OPERATOR_dom:
  "dom BINARY_NEG_OPERATOR =
     {''IN'', ''IS'', ''='', ''>'', ''<'', ''NOT IN'', ''IS NOT'', ''!='', ''<='', ''>=''}"
  by (auto simp: dom_def BINARY_NEG_OPERATOR_apply)

lemma negation_keys_normal:
  "list_all (\<lambda>k. upper (strip k) = k)
     [''-'', ''+'', ''IN'', ''IS'', ''='', ''>'', ''<'', ''NOT IN'', ''IS NOT'', ''!='',
      ''<='', ''>='']"
  by (simp add: upper_def upper_char_def strip_def lstrip_def rstrip_def isspace_def)

lemma negation_key_normal:
  assumes "op \<in> dom UNARY_NEG_OPERATOR \<union> dom BINARY_NEG_OPERATOR"
  shows "upper (strip op) = op"
proof -
  have m: "op \<in> set [''-'', ''+'', ''IN'', ''IS'', ''='', ''>'', ''<'', ''NOT IN'', ''IS NOT'',
      ''!='', ''<='', ''>='']"
    using assms by (auto simp: UNARY_NEG_OPERATOR_dom BINARY_NEG_OPERATOR_dom)
  show ?thesis
    by (rule bspec [OF negation_keys_normal [unfolded list_all_iff] m])
qed

lemma UNARY_NEG_OPERATOR_symmetric:
  "UNARY_NEG_OPERATOR op = Some n \<Longrightarrow> UNARY_NEG_OPERATOR n = Some op"
  by (auto simp: UNARY_NEG_OPERATOR_apply split: if_splits)

lemma BINARY_NEG_OPERATOR_symmetric:
  "BINARY_NEG_OPERATOR op = Some n \<Longrightarrow> BINARY_NEG_OPERATOR n = Some op"
  by (auto simp: BINARY_NEG_OPERATOR_apply split: if_splits)

section \<open>Precedence: the table and the comparison\<close>

text \<open>
  Claim C2. The precedence table holds exactly the listed tiers: \<open>OR\<close> and \<open>||\<close> at 0,
  \<open>AND\<close> and \<open>&&\<close> at 1, \<open>BETWEEN\<close> and \<open>CASE\<close> at 2, the ten comparison and membership
  operators at 3, the shifts at 4, \<open>-\<close> and \<open>+\<close> at 5, and \<open>*\<close>, \<open>/\<close>, \<open>%\<close>, \<open>DIV\<close>, \<open>MOD\<close>
  at 6; every other string has no entry. The tiers rise from the loosest to the tightest
  binding operators.
\<close>

theorem OPERATOR_PRECEDENCES_exact:
  "OPERATOR_PRECEDENCES op =
     (if op \<in> {''OR'', ''||''} then Some 0
      else if op \<in> {''AND'', ''&&''} then Some 1
      else if op \<in> {''BETWEEN'', ''CASE''} then Some 2
      else if op \<in> {''='', ''!='', ''>'', ''<'', ''>='', ''<='', ''IN'', ''IS'', ''IS NOT'',
                      ''NOT IN''} then Some 3
      else if op \<in> {''<<'', ''>>''} then Some 4
      else if op \<in> {''-'', ''+''} then Some 5
      else if op \<in> {''*'', ''/'', ''%'', ''DIV'', ''MOD''} then Some 6
      else None)
   \<and> get_operator_precedence ''OR'' < get_operator_precedence ''AND''
   \<and> get_operator_precedence ''AND'' < get_operator_precedence ''BETWEEN''
   \<and> get_operator_precedence ''BETWEEN'' < get_operator_precedence ''=''
   \<and> get_operator_precedence ''='' < get_operator_precedence ''<<''
   \<and> get_operator_precedence ''<<'' < get_operator_precedence ''+''
   \<and> get_operator_precedence ''+'' < get_operator_precedence ''*''"
proof -
  have order: "get_operator_precedence ''OR'' = 0" "get_operator_precedence ''AND'' = 1"
    "get_operator_precedence ''BETWEEN'' = 2" "get_operator_precedence ''='' = 3"
    "get_operator_precedence ''<<'' = 4" "get_operator_precedence ''+'' = 5"
    "get_operator_precedence ''*'' = 6"
    by (simp_all add: get_operator_precedence_def OPERATOR_PRECEDENCES_apply)
  show ?thesis
    unfolding order by (simp only: OPERATOR_PRECEDENCES_apply) simp
qed

text \<open>
  Claim C5. Precedence comparison is a reflexive, antisymmetric three-valued order on all
  strings: swapping the arguments negates the result, an operator compares as 0 with
  itself, the result is one of -1, 0 and 1, it is 0 exactly when the two uppercased
  operators have the same precedence, and it is the sign of the difference of the
  precedences looked up for the uppercased arguments.
\<close>

theorem compare_operator_precedence_order:
  "compare_operator_precedence a b = - compare_operator_precedence b a
   \<and> compare_operator_precedence a a = 0
   \<and> compare_operator_precedence a b \<in> {- 1, 0, 1}
   \<and> (compare_operator_precedence a b = 0
        \<longleftrightarrow> get_operator_precedence (upper a) = get_operator_precedence (upper b))
   \<and> compare_operator_precedence a b
        = sgn (get_operator_precedence (upper a) - get_operator_precedence (upper b))"
  by (simp add: compare_operator_precedence_def Let_def)

text \<open>
  Claim C7. An operator whose uppercased form is not a key of the precedence table gets
  the precedence -1 from \<open>get_operator_precedence\<close>, and compared with any operator of the
  table, all of which have a tier of at least 0, it yields -1.
\<close>

theorem unknown_operator_sentinel:
  assumes "upper op \<notin> dom OPERATOR_PRECEDENCES"
  shows "get_operator_precedence op = - 1
    \<and> (\<forall>k \<in> dom OPERATOR_PRECEDENCES.
          0 \<le> get_operator_precedence k \<and> compare_operator_precedence op k = - 1)"
proof -
  have "op \<notin> dom OPERATOR_PRECEDENCES"
    using assms known_upper_fixed by force
  then have direct: "get_operator_precedence op = - 1"
    by (rule unknown_precedence)
  have uppercased: "get_operator_precedence (upper op) = - 1"
    using assms by (rule unknown_precedence)
  have "0 \<le> get_operator_precedence k \<and> compare_operator_precedence op k = - 1"
    if "k \<in> dom OPERATOR_PRECEDENCES" for k
  proof -
    have "0 \<le> get_operator_precedence k"
      using that by (rule known_precedence_nonneg)
    moreover have "upper k = k"
      using that by (rule known_upper_fixed)
    ultimately show ?thesis
      using uppercased by (simp add: compare_operator_precedence_def Let_def)
  qed
  then show ?thesis using direct by blast
qed

theorem unknown_operator_sentinel_witness:
  "upper ''xor'' \<notin> dom OPERATOR_PRECEDENCES \<and> get_operator_precedence ''xor'' = - 1
   \<and> ''*'' \<in> dom OPERATOR_PRECEDENCES \<and> compare_operator_precedence ''xor'' ''*'' = - 1"
proof -
  have u: "upper ''xor'' = ''XOR''" by code_simp
  have h: "upper ''xor'' \<notin> dom OPERATOR_PRECEDENCES"
    unfolding u by (simp add: OPERATOR_PRECEDENCES_dom)
  have k: "''*'' \<in> dom OPERATOR_PRECEDENCES"
    by (simp add: OPERATOR_PRECEDENCES_dom)
  show ?thesis using unknown_operator_sentinel [OF h] h k by blast
qed

text \<open>
  Claim C10. \<open>get_operator_precedence\<close> does not normalise case: a spelling that is not
  already uppercase, of an operator whose uppercased form is in the table, gets -1, while
  its uppercased form has a tier of at least 0 (which is what
  \<open>compare_operator_precedence\<close> looks up).
\<close>

theorem get_operator_precedence_case_sensitive:
  assumes "upper s \<in> dom OPERATOR_PRECEDENCES" and "s \<noteq> upper s"
  shows "get_operator_precedence s = - 1 \<and> 0 \<le> get_operator_precedence (upper s)"
proof -
  have "s \<notin> dom OPERATOR_PRECEDENCES"
    using assms(2) known_upper_fixed by force
  then show ?thesis
    using assms(1) by (simp add: unknown_precedence known_precedence_nonneg)
qed

theorem get_operator_precedence_case_sensitive_witness:
  "upper ''or'' \<in> dom OPERATOR_PRECEDENCES \<and> ''or'' \<noteq> upper ''or''
   \<and> get_operator_precedence ''or'' = - 1 \<and> 0 \<le> get_operator_precedence (upper ''or'')"
proof -
  have u: "upper ''or'' = ''OR''" by code_simp
  have h1: "upper ''or'' \<in> dom OPERATOR_PRECEDENCES"
    unfolding u by (simp add: OPERATOR_PRECEDENCES_dom)
  have h2: "''or'' \<noteq> upper ''or''"
    unfolding u by simp
  show ?thesis using get_operator_precedence_case_sensitive [OF h1 h2] h1 h2 by simp
qed

section \<open>Negation\<close>

text \<open>
  Claim C6. Negation is an involution on the operators of the tables: for an operator that
  is a key of the selected table (unary: \<open>-\<close>, \<open>+\<close>; binary: \<open>IN\<close>, \<open>NOT IN\<close>, \<open>IS\<close>,
  \<open>IS NOT\<close>, \<open>=\<close>, \<open>!=\<close>, \<open>>\<close>, \<open><=\<close>, \<open><\<close>, \<open>>=\<close>), \<open>get_neg_operator\<close> returns a
  negation, and \<open>get_neg_operator\<close> of that negation returns the operator.
\<close>

theorem get_neg_operator_involution:
  assumes "op \<in> dom (if is_unary then UNARY_NEG_OPERATOR else BINARY_NEG_OPERATOR)"
  shows "\<exists>n. get_neg_operator op is_unary = Some n \<and> get_neg_operator n is_unary = Some op"
proof (cases is_unary)
  case True
  with assms obtain n where n: "UNARY_NEG_OPERATOR op = Some n" by auto
  then have inv: "UNARY_NEG_OPERATOR n = Some op"
    by (rule UNARY_NEG_OPERATOR_symmetric)
  have "upper (strip op) = op"
    using n by (intro negation_key_normal) auto
  moreover have "upper (strip n) = n"
    using inv by (intro negation_key_normal) auto
  ultimately show ?thesis
    using True n inv by (simp add: get_neg_operator_def)
next
  case False
  with assms obtain n where n: "BINARY_NEG_OPERATOR op = Some n" by auto
  then have inv: "BINARY_NEG_OPERATOR n = Some op"
    by (rule BINARY_NEG_OPERATOR_symmetric)
  have "upper (strip op) = op"
    using n by (intro negation_key_normal) auto
  moreover have "upper (strip n) = n"
    using inv by (intro negation_key_normal) auto
  ultimately show ?thesis
    using False n inv by (simp add: get_neg_operator_def)
qed

theorem get_neg_operator_involution_witness:
  "''>'' \<in> dom BINARY_NEG_OPERATOR
   \<and> (\<exists>n. get_neg_operator ''>'' False = Some n \<and> get_neg_operator n False = Some ''>'')"
proof -
  have h: "''>'' \<in> dom (if False then UNARY_NEG_OPERATOR else BINARY_NEG_OPERATOR)"
    by (simp add: BINARY_NEG_OPERATOR_dom)
  show ?thesis using get_neg_operator_involution [OF h] h by simp
qed

text \<open>
  Claim C8. For every string, \<open>get_neg_operator\<close> strips and uppercases it, looks the
  result up in the unary table when \<open>is_unary\<close> holds and in the binary table otherwise,
  and returns \<open>None\<close> exactly when the normalised operator is not a key of that table; it
  has a result for every input.
\<close>

theorem get_neg_operator_lookup:
  "get_neg_operator op is_unary =
     (let n = upper (strip op) in
      if is_unary then
        (if n = ''-'' then Some ''+'' else if n = ''+'' then Some ''-'' else None)
      else
        (if n = ''IN'' then Some ''NOT IN''
         else if n = ''IS'' then Some ''IS NOT''
         else if n = ''='' then Some ''!=''
         else if n = ''>'' then Some ''<=''
         else if n = ''<'' then Some ''>=''
         else if n = ''NOT IN'' then Some ''IN''
         else if n = ''IS NOT'' then Some ''IS''
         else if n = ''!='' then Some ''=''
         else if n = ''<='' then Some ''>''
         else if n = ''>='' then Some ''<''
         else None))
   \<and> (get_neg_operator op is_unary = None
        \<longleftrightarrow> upper (strip op)
              \<notin> dom (if is_unary then UNARY_NEG_OPERATOR else BINARY_NEG_OPERATOR))
   \<and> get_neg_operator ''  not in  '' False = Some ''IN''
   \<and> get_neg_operator ''<>'' False = None"
proof -
  have lookup: "get_neg_operator op is_unary =
     (if is_unary then UNARY_NEG_OPERATOR (upper (strip op))
      else BINARY_NEG_OPERATOR (upper (strip op)))"
    by (simp add: get_neg_operator_def)
  have none: "get_neg_operator op is_unary = None
        \<longleftrightarrow> upper (strip op)
              \<notin> dom (if is_unary then UNARY_NEG_OPERATOR else BINARY_NEG_OPERATOR)"
    unfolding lookup by (cases is_unary) (simp_all add: domIff)
  have table: "get_neg_operator op is_unary =
     (let n = upper (strip op) in
      if is_unary then
        (if n = ''-'' then Some ''+'' else if n = ''+'' then Some ''-'' else None)
      else
        (if n = ''IN'' then Some ''NOT IN''
         else if n = ''IS'' then Some ''IS NOT''
         else if n = ''='' then Some ''!=''
         else if n = ''>'' then Some ''<=''
         else if n = ''<'' then Some ''>=''
         else if n = ''NOT IN'' then Some ''IN''
         else if n = ''IS NOT'' then Some ''IS''
         else if n = ''!='' then Some ''=''
         else if n = ''<='' then Some ''>''
         else if n = ''>='' then Some ''<''
         else None))"
    unfolding lookup Let_def
    by (simp only: UNARY_NEG_OPERATOR_apply BINARY_NEG_OPERATOR_apply)
  have spaced: "get_neg_operator ''  not in  '' False = Some ''IN''"
    by code_simp
  have absent: "get_neg_operator ''<>'' False = None"
    by code_simp
  from table none spaced absent show ?thesis by (intro conjI)
qed

section \<open>Rendering a sequence of operands\<close>

lemma get_sql_pieces_and_params_loop_acc:
  "get_sql_pieces_and_params_loop g str exps (pieces, params) =
     (pieces @ map (\<lambda>e. fst (sql_and_params g e str)) exps,
      params @ concat (map (\<lambda>e. snd (sql_and_params g e str)) exps))"
proof (induction exps arbitrary: pieces params)
  case Nil
  show ?case by simp
next
  case (Cons exp exps)
  show ?case by (simp add: Cons.IH split_beta Let_def)
qed

text \<open>
  Claim C3. For every sequence of operands, the parameter list returned by
  \<open>get_sql_pieces_and_params\<close> is the concatenation, in the order of the sequence, of the
  parameter lists of its elements, an expression contributing the parameters it renders
  to and any other element none; the pieces returned are the texts of the elements in the
  same order.
\<close>

theorem get_sql_pieces_and_params_in_order:
  "get_sql_pieces_and_params g str exps coerce =
     (map (\<lambda>e. fst (sql_and_params g e str)) exps,
      concat (map (\<lambda>e. case e of Expression x \<Rightarrow> snd (g x) | Literal a \<Rightarrow> []) exps))"
proof -
  have "(\<lambda>e. snd (sql_and_params g e str))
          = (\<lambda>e. case e of Expression x \<Rightarrow> snd (g x) | Literal a \<Rightarrow> [])"
    by (rule ext) (simp add: sql_and_params_def split: operand.split)
  then show ?thesis
    by (simp add: get_sql_pieces_and_params_def get_sql_pieces_and_params_loop_acc)
qed

text \<open>
  Claim C4. A value without a render method should render to the text its caller's
  coerce function gives it, with no parameters, directly and as an element of a sequence.
  \<open>sql_and_params\<close> does so. \<open>get_sql_pieces_and_params\<close> takes \<open>coerce\<close> and does not
  pass it on: for the one-element sequence of the string \<open>a\<close> and a coerce function that
  puts its argument in angle brackets, the piece is \<open>str\<close> of the element, \<open>a\<close>, where
  \<open>sql_and_params\<close> with the same function gives \<open><a>\<close> (\<open>str\<close> of a string is the string).
\<close>

theorem get_sql_pieces_and_params_drops_coerce:
  "get_sql_pieces_and_params (\<lambda>e :: unit. ('''', [] :: nat list)) (\<lambda>s. s) [Literal ''a'']
       (\<lambda>s. ''<'' @ s @ ''>'') = ([''a''], [])
   \<and> sql_and_params (\<lambda>e :: unit. ('''', [] :: nat list)) (Literal ''a'') (\<lambda>s. ''<'' @ s @ ''>'')
       = (''<a>'', [])"
  by (simp add: get_sql_pieces_and_params_def sql_and_params_def)

section \<open>The nodes the mixins build\<close>

text \<open>
  Claim C1. For every receiver, \<open>__eq__\<close> builds a binary node with operator \<open>IS\<close> when
  the operand is \<open>None\<close> and \<open>=\<close> when it is any other value, \<open>__ne__\<close> builds \<open>IS NOT\<close>
  for \<open>None\<close> and \<open>!=\<close> otherwise, and \<open>is_\<close> and \<open>is_not_\<close> build \<open>IS\<close> and \<open>IS NOT\<close> for
  every operand, \<open>None\<close> or not.
\<close>

theorem equality_operator_selection:
  "BinaryOperationMixin_eq x PyNone = BinaryExpression x PyNone ''IS''
   \<and> BinaryOperationMixin_eq x (PyValue v) = BinaryExpression x (PyValue v) ''=''
   \<and> BinaryOperationMixin_ne x PyNone = BinaryExpression x PyNone ''IS NOT''
   \<and> BinaryOperationMixin_ne x (PyValue v) = BinaryExpression x (PyValue v) ''!=''
   \<and> BinaryOperationMixin_is x w = BinaryExpression x w ''IS''
   \<and> BinaryOperationMixin_is_not x w = BinaryExpression x w ''IS NOT''"
  by (simp add: BinaryOperationMixin_eq_def BinaryOperationMixin_ne_def
      BinaryOperationMixin_is_def BinaryOperationMixin_is_not_def)

text \<open>
  Claim C9. For every receiver \<open>x\<close> and operand \<open>y\<close>, \<open>__radd__\<close> builds the node that
  \<open>__add__\<close> builds, \<open>BinaryExpression(x, y, '+')\<close>, and \<open>__rsub__\<close> builds the node that
  \<open>__sub__\<close> builds, \<open>BinaryExpression(x, y, '-')\<close>.
\<close>

theorem reversed_add_sub_same_node:
  "BinaryOperationMixin_radd x y = BinaryOperationMixin_add x y
   \<and> BinaryOperationMixin_radd x y = BinaryExpression x y ''+''
   \<and> BinaryOperationMixin_rsub x y = BinaryOperationMixin_sub x y
   \<and> BinaryOperationMixin_rsub x y = BinaryExpression x y ''-''"
  by (simp add: BinaryOperationMixin_radd_def BinaryOperationMixin_add_def
      BinaryOperationMixin_rsub_def BinaryOperationMixin_sub_def)

end
